theory Spec2Isabelle
  imports Complex_Main "HOL-Library.Sublist"
begin

section \<open>Data model\<close>

text \<open>
  JSON values as Python's \<^verbatim>\<open>json\<close> module and SQLite's JSON functions see them.
  An object is an association list in member order; \<^verbatim>\<open>json.dumps\<close> writes every key of a
  Python dict once. Numbers are the integers (fractions and exponents are not modelled).
\<close>

datatype json =
    JNull
  | JBool bool
  | JInt int
  | JStr string
  | JArr "json list"
  | JObj "(string \<times> json) list"

type_synonym timestamp = nat

text \<open>
  Table \<^verbatim>\<open>sbom\<close> of \<^verbatim>\<open>database.py\<close>:
  \<^verbatim>\<open>id INTEGER PRIMARY KEY AUTOINCREMENT, source_repo TEXT UNIQUE, json_content TEXT,
  created_at TIMESTAMP DEFAULT CURRENT_TIMESTAMP\<close>.
  The column \<^verbatim>\<open>json_content\<close> holds \<^verbatim>\<open>json.dumps(content)\<close>; the model keeps the value
  that text denotes.
\<close>

record sbom_row =
  sbom_id :: nat
  source_repo :: string
  json_content :: json
  sbom_created_at :: timestamp

text \<open>
  Table \<^verbatim>\<open>analysis_sessions\<close>:
  \<^verbatim>\<open>id, org_name, total_repos, processed_repos, status DEFAULT 'pending', created_at,
  completed_at\<close>.
\<close>

record session_row =
  session_id :: nat
  org_name :: string
  total_repos :: int
  processed_repos :: int
  status :: string
  created_at :: timestamp
  completed_at :: "timestamp option"

text \<open>
  The database file: both tables in rowid order, each with the largest rowid it has ever
  handed out (what AUTOINCREMENT keeps in \<^verbatim>\<open>sqlite_sequence\<close>).
\<close>

record database =
  sbom :: "sbom_row list"
  sbom_seq :: nat
  analysis_sessions :: "session_row list"
  sessions_seq :: nat

definition init_database :: database where
  "init_database = \<lparr>sbom = [], sbom_seq = 0, analysis_sessions = [], sessions_seq = 0\<rparr>"

section \<open>DatabaseManager\<close>

text \<open>
  Every method opens the database file, runs one statement and commits. The statements
  are taken to run; only \<^verbatim>\<open>store_sbom\<close> has a \<^verbatim>\<open>try\<close> of its own, and its failure is
  modelled.
\<close>

text \<open>
  \<^verbatim>\<open>INSERT OR REPLACE INTO sbom (source_repo, json_content) VALUES (?, ?)\<close>:
  the rows that clash on the UNIQUE column are deleted, then the new row is appended under
  a fresh rowid and the current timestamp.
\<close>

definition insert_or_replace_sbom :: "timestamp \<Rightarrow> string \<Rightarrow> json \<Rightarrow> database \<Rightarrow> database" where
  "insert_or_replace_sbom now repo content db =
     db\<lparr>sbom := filter (\<lambda>r. source_repo r \<noteq> repo) (sbom db) @
                   [\<lparr>sbom_id = Suc (sbom_seq db), source_repo = repo,
                     json_content = content, sbom_created_at = now\<rparr>],
        sbom_seq := Suc (sbom_seq db)\<rparr>"

text \<open>
  \<^verbatim>\<open>store_sbom\<close>: the statement runs inside \<^verbatim>\<open>try\<close>; when SQLite raises (\<open>io_ok\<close> is
  false) the write is dropped and \<^verbatim>\<open>False\<close> is returned.
\<close>

definition store_sbom :: "bool \<Rightarrow> timestamp \<Rightarrow> string \<Rightarrow> json \<Rightarrow> database \<Rightarrow> bool \<times> database" where
  "store_sbom io_ok now repo content db =
     (if io_ok then (True, insert_or_replace_sbom now repo content db) else (False, db))"

text \<open>\<^verbatim>\<open>SELECT source_repo, json_content FROM sbom\<close>\<close>

definition get_all_sboms :: "database \<Rightarrow> (string \<times> json) list" where
  "get_all_sboms db = map (\<lambda>r. (source_repo r, json_content r)) (sbom db)"

text \<open>\<^verbatim>\<open>SELECT COUNT(*) FROM sbom\<close>\<close>

definition get_sbom_count :: "database \<Rightarrow> int" where
  "get_sbom_count db = int (length (sbom db))"

text \<open>
  \<^verbatim>\<open>INSERT INTO analysis_sessions (org_name, total_repos, processed_repos) VALUES (?, ?, 0)\<close>,
  returning \<^verbatim>\<open>cursor.lastrowid\<close>.
\<close>

definition create_analysis_session :: "timestamp \<Rightarrow> string \<Rightarrow> int \<Rightarrow> database \<Rightarrow> nat \<times> database" where
  "create_analysis_session now org n_total db =
     (Suc (sessions_seq db),
      db\<lparr>analysis_sessions := analysis_sessions db @
            [\<lparr>session_id = Suc (sessions_seq db), org_name = org, total_repos = n_total,
              processed_repos = 0, status = ''pending'', created_at = now,
              completed_at = None\<rparr>],
         sessions_seq := Suc (sessions_seq db)\<rparr>)"

text \<open>
  \<^verbatim>\<open>update_analysis_session(session_id, processed_repos, status='processing')\<close>: one of two
  UPDATE statements, both \<^verbatim>\<open>WHERE id = ?\<close>.
\<close>

definition update_row :: "timestamp \<Rightarrow> int \<Rightarrow> string \<Rightarrow> session_row \<Rightarrow> session_row" where
  "update_row now processed st r =
     (if st = ''completed''
      then r\<lparr>processed_repos := processed, status := st, completed_at := Some now\<rparr>
      else r\<lparr>processed_repos := processed, status := st\<rparr>)"

definition update_analysis_session :: "timestamp \<Rightarrow> nat \<Rightarrow> int \<Rightarrow> string \<Rightarrow> database \<Rightarrow> database" where
  "update_analysis_session now sid processed st db =
     db\<lparr>analysis_sessions :=
          map (\<lambda>r. if session_id r = sid then update_row now processed st r else r)
              (analysis_sessions db)\<rparr>"

text \<open>\<^verbatim>\<open>SELECT ... FROM analysis_sessions WHERE id = ?\<close> (the progress routes)\<close>

definition get_session :: "database \<Rightarrow> nat \<Rightarrow> session_row option" where
  "get_session db sid = find (\<lambda>r. session_id r = sid) (analysis_sessions db)"

section \<open>Calls to the outside\<close>

text \<open>
  What the program does to the outside, in the order it does it: HTTP requests, sleeps,
  calls of the client from the orchestrator, and the session updates it persists. The
  answers of the outside may depend on everything done so far, so every oracle below reads
  the list of calls made before it.
\<close>

datatype io =
    HttpGet string
  | Sleep rat
  | FetchSbom string string
  | GetRateLimitInfo
  | UpdateSession nat int string

fun http_gets :: "io list \<Rightarrow> string list" where
  "http_gets [] = []"
| "http_gets (HttpGet u # evs) = u # http_gets evs"
| "http_gets (_ # evs) = http_gets evs"


fun fetches :: "io list \<Rightarrow> (string \<times> string) list" where
  "fetches [] = []"
| "fetches (FetchSbom ow rn # evs) = (ow, rn) # fetches evs"
| "fetches (_ # evs) = fetches evs"

fun session_updates :: "io list \<Rightarrow> (nat \<times> int \<times> string) list" where
  "session_updates [] = []"
| "session_updates (UpdateSession sid n st # evs) = (sid, n, st) # session_updates evs"
| "session_updates (_ # evs) = session_updates evs"

section \<open>GitHubClient\<close>














section \<open>The orchestrator (app.py)\<close>

text \<open>
  A listing entry, with the three fields the program reads: \<^verbatim>\<open>repo['owner']['login']\<close>,
  \<^verbatim>\<open>repo['name']\<close> and \<^verbatim>\<open>repo['visibility']\<close>. GitHub's listing carries all three for
  every repository, so the lookups do not fail.
\<close>

record repo =
  owner_login :: string
  repo_name :: string
  visibility :: string

text \<open>
  What \<^verbatim>\<open>github_client.fetch_sbom(owner, repo_name)\<close> does for its caller: it returns the
  name of the file it wrote, returns \<^verbatim>\<open>None\<close>, or raises.
\<close>

datatype fetch_outcome = SbomFile string | NoSbom | FetchRaised string

text \<open>
  The outside of the orchestrator. \<open>w_get_repositories\<close> is \<^verbatim>\<open>get_repositories(org)\<close>
  (the listing, or the message of the exception it raises); \<open>w_json_load\<close> is
  \<^verbatim>\<open>open(sbom_file)\<close> with \<^verbatim>\<open>json.load\<close> (the document, or the message of the exception);
  \<open>w_store_ok\<close> says whether SQLite accepts the write of \<^verbatim>\<open>store_sbom\<close>; \<open>w_remaining\<close> is
  \<^verbatim>\<open>int(get_rate_limit_info().get('remaining', 0))\<close>, \<open>None\<close> when that raises (the value
  is \<^verbatim>\<open>'Unknown'\<close>, or the poll itself raised); \<open>w_timestamp\<close> is CURRENT_TIMESTAMP.
\<close>

record world =
  w_get_repositories :: "string \<Rightarrow> string + repo list"
  w_fetch_sbom :: "io list \<Rightarrow> string \<Rightarrow> string \<Rightarrow> fetch_outcome"
  w_json_load :: "io list \<Rightarrow> string \<Rightarrow> string + json"
  w_store_ok :: "io list \<Rightarrow> bool"
  w_remaining :: "io list \<Rightarrow> int option"
  w_timestamp :: "io list \<Rightarrow> timestamp"

text \<open>\<^verbatim>\<open>[repo for repo in repos if repo['visibility'] == 'public']\<close>\<close>

definition get_public_repositories :: "world \<Rightarrow> string \<Rightarrow> string + repo list" where
  "get_public_repositories w org =
     (case w_get_repositories w org of
        Inl e \<Rightarrow> Inl e
      | Inr repos \<Rightarrow> Inr (filter (\<lambda>repo. visibility repo = ''public'') repos))"

text \<open>The entry \<^verbatim>\<open>analysis_progress[session_id]\<close> of the global progress dict.\<close>

record progress =
  p_status :: string
  p_processed :: int
  p_total :: int
  p_current_repo :: string
  p_errors :: "string list"

text \<open>
  The state of one run of \<^verbatim>\<open>analyze_organization\<close>: the database, the progress entry of
  the session, the local \<^verbatim>\<open>processed_count\<close>, and the calls made so far.
\<close>

record scan_state =
  s_db :: database
  s_progress :: progress
  s_count :: int
  s_io :: "io list"

text \<open>
  The three statements that follow every outcome:
  \<^verbatim>\<open>processed_count += 1\<close>,
  \<^verbatim>\<open>analysis_progress[session_id]['processed'] = processed_count\<close>,
  \<^verbatim>\<open>db_manager.update_analysis_session(session_id, processed_count)\<close>.
\<close>

definition count_processed :: "world \<Rightarrow> nat \<Rightarrow> scan_state \<Rightarrow> scan_state" where
  "count_processed w sid s =
     (let c = s_count s + 1 in
      s\<lparr>s_count := c,
        s_progress := (s_progress s)\<lparr>p_processed := c\<rparr>,
        s_db := update_analysis_session (w_timestamp w (s_io s)) sid c ''processing'' (s_db s),
        s_io := s_io s @ [UpdateSession sid c ''processing'']\<rparr>)"

text \<open>
  \<^verbatim>\<open>if processed_count % 20 == 0:\<close> poll the quota and print a warning; both inside their
  own \<^verbatim>\<open>try\<close>.
\<close>

definition monitor_rate_limit :: "world \<Rightarrow> scan_state \<Rightarrow> scan_state" where
  "monitor_rate_limit w s =
     (if s_count s mod 20 = 0 then s\<lparr>s_io := s_io s @ [GetRateLimitInfo]\<rparr> else s)"

text \<open>The adaptive delay: \<^verbatim>\<open>if processed_count % 5 == 0: ... else: time.sleep(0.1)\<close>.\<close>

definition adaptive_delay :: "world \<Rightarrow> scan_state \<Rightarrow> scan_state" where
  "adaptive_delay w s =
     (if s_count s mod 5 = 0 then
        (case w_remaining w (s_io s) of
           None \<Rightarrow> s\<lparr>s_io := s_io s @ [GetRateLimitInfo, Sleep (1 / 2)]\<rparr>
         | Some remaining \<Rightarrow>
             if remaining \<le> 20 then s\<lparr>s_io := s_io s @ [GetRateLimitInfo, Sleep 2]\<rparr>
             else s\<lparr>s_io := s_io s @ [GetRateLimitInfo, Sleep (1 / 2)]\<rparr>)
      else s\<lparr>s_io := s_io s @ [Sleep (1 / 10)]\<rparr>)"

text \<open>
  The body of \<^verbatim>\<open>try\<close> for one repository. \<open>Inl (e, s')\<close>: an exception with message \<open>e\<close>
  was raised in state \<open>s'\<close> (what was assigned before the raise stays assigned).
  \<^verbatim>\<open>store_sbom\<close> catches its own exceptions and its result is not looked at.
\<close>

definition try_block :: "world \<Rightarrow> nat \<Rightarrow> repo \<Rightarrow> scan_state \<Rightarrow> (string \<times> scan_state) + scan_state" where
  "try_block w sid repo s =
     (let owner = owner_login repo;
          rname = repo_name repo;
          s1 = s\<lparr>s_progress := (s_progress s)\<lparr>p_current_repo := owner @ ''/'' @ rname\<rparr>,
                 s_io := s_io s @ [FetchSbom owner rname]\<rparr>
      in case w_fetch_sbom w (s_io s) owner rname of
           FetchRaised e \<Rightarrow> Inl (e, s1)
         | NoSbom \<Rightarrow>
             Inr (adaptive_delay w (monitor_rate_limit w (count_processed w sid s1)))
         | SbomFile sbom_file \<Rightarrow>
             if sbom_file = [] then
               Inr (adaptive_delay w (monitor_rate_limit w (count_processed w sid s1)))
             else
               (case w_json_load w (s_io s1) sbom_file of
                  Inl e \<Rightarrow> Inl (e, s1)
                | Inr sbom_content \<Rightarrow>
                    (let s2 = s1\<lparr>s_db := snd (store_sbom (w_store_ok w (s_io s1))
                                   (w_timestamp w (s_io s1)) (owner @ ''/'' @ rname)
                                   sbom_content (s_db s1))\<rparr>
                     in Inr (adaptive_delay w (monitor_rate_limit w (count_processed w sid s2))))))"

text \<open>\<^verbatim>\<open>f"Error processing {owner}/{repo_name}: {str(e)}"\<close>\<close>

definition error_msg :: "repo \<Rightarrow> string \<Rightarrow> string" where
  "error_msg repo e = ''Error processing '' @ owner_login repo @ ''/'' @ repo_name repo @ '': '' @ e"

text \<open>The \<^verbatim>\<open>except Exception as e:\<close> block.\<close>

definition handler :: "world \<Rightarrow> nat \<Rightarrow> repo \<Rightarrow> string \<Rightarrow> scan_state \<Rightarrow> scan_state" where
  "handler w sid repo e s =
     count_processed w sid
       (s\<lparr>s_progress := (s_progress s)\<lparr>p_errors := p_errors (s_progress s) @ [error_msg repo e]\<rparr>\<rparr>)"

definition process_repo :: "world \<Rightarrow> nat \<Rightarrow> repo \<Rightarrow> scan_state \<Rightarrow> scan_state" where
  "process_repo w sid repo s =
     (case try_block w sid repo s of
        Inr s' \<Rightarrow> s'
      | Inl (e, s') \<Rightarrow> handler w sid repo e s')"

text \<open>\<^verbatim>\<open>for repo in repos:\<close>\<close>

fun analyze_repos :: "world \<Rightarrow> nat \<Rightarrow> repo list \<Rightarrow> scan_state \<Rightarrow> scan_state" where
  "analyze_repos w sid [] s = s"
| "analyze_repos w sid (repo # repos) s = analyze_repos w sid repos (process_repo w sid repo s)"

definition start_state :: "repo list \<Rightarrow> database \<Rightarrow> scan_state" where
  "start_state repos db0 =
     \<lparr>s_db = db0,
      s_progress = \<lparr>p_status = ''processing'', p_processed = 0, p_total = int (length repos),
                    p_current_repo = [], p_errors = []\<rparr>,
      s_count = 0,
      s_io = []\<rparr>"

text \<open>\<^verbatim>\<open>analyze_organization(org_name, repos, session_id)\<close>, run to its end.\<close>

definition analyze_organization :: "world \<Rightarrow> string \<Rightarrow> repo list \<Rightarrow> nat \<Rightarrow> database \<Rightarrow> scan_state" where
  "analyze_organization w org repos sid db0 =
     (let s = analyze_repos w sid repos (start_state repos db0) in
      s\<lparr>s_progress := (s_progress s)\<lparr>p_status := ''completed''\<rparr>,
        s_db := update_analysis_session (w_timestamp w (s_io s)) sid (s_count s) ''completed'' (s_db s),
        s_io := s_io s @ [UpdateSession sid (s_count s) ''completed'']\<rparr>)"

text \<open>
  The POST branch of the route \<^verbatim>\<open>/analyze\<close>, with the organisation name already stripped.
  \<open>Rejected\<close> is a flashed error and a redirect, no session created; \<open>Started\<close> carries the
  new session id and the state the background thread leaves when it has run.
\<close>

datatype analyze_result = Rejected string | Started nat scan_state

definition analyze :: "world \<Rightarrow> database \<Rightarrow> string \<Rightarrow> analyze_result" where
  "analyze w db0 org =
     (if org = [] then Rejected ''Please enter a GitHub organization name''
      else
        (case get_public_repositories w org of
           Inl e \<Rightarrow> Rejected (''Error analyzing organization: '' @ e)
         | Inr repos \<Rightarrow>
             if length repos = 0
             then Rejected (''No public repositories found for organization: '' @ org)
             else
               (let (sid, db1) = create_analysis_session (w_timestamp w []) org
                                   (int (length repos)) db0
                in Started sid (analyze_organization w org repos sid db1))))"

text \<open>
  AUTOINCREMENT: no row of \<^verbatim>\<open>analysis_sessions\<close> has an id above the largest one handed
  out.
\<close>

definition sessions_ok :: "database \<Rightarrow> bool" where
  "sessions_ok db = list_all (\<lambda>r. session_id r \<le> sessions_seq db) (analysis_sessions db)"

text \<open>
  Two names for the proofs: the state right after the call of \<^verbatim>\<open>fetch_sbom\<close>, and the
  two pacing steps that close the \<^verbatim>\<open>try\<close> body.
\<close>

definition fetched :: "repo \<Rightarrow> scan_state \<Rightarrow> scan_state" where
  "fetched repo s =
     s\<lparr>s_progress := (s_progress s)\<lparr>p_current_repo := owner_login repo @ ''/'' @ repo_name repo\<rparr>,
       s_io := s_io s @ [FetchSbom (owner_login repo) (repo_name repo)]\<rparr>"

definition pace :: "world \<Rightarrow> scan_state \<Rightarrow> scan_state" where
  "pace w s = adaptive_delay w (monitor_rate_limit w s)"

text \<open>
  An organisation to run a scan on: three public repositories and a private one. The
  fetch for \<^verbatim>\<open>widgets\<close> writes a file, \<^verbatim>\<open>gears\<close> has no SBOM, the fetch for \<^verbatim>\<open>bolts\<close>
  raises; the quota poll reads 15.
\<close>

definition acme_listing :: "repo list" where
  "acme_listing =
     [\<lparr>owner_login = ''acme'', repo_name = ''widgets'', visibility = ''public''\<rparr>,
      \<lparr>owner_login = ''acme'', repo_name = ''vault'', visibility = ''private''\<rparr>,
      \<lparr>owner_login = ''acme'', repo_name = ''gears'', visibility = ''public''\<rparr>,
      \<lparr>owner_login = ''acme'', repo_name = ''bolts'', visibility = ''public''\<rparr>]"

definition widgets_sbom :: json where
  "widgets_sbom =
     JObj [(''sbom'', JObj [(''packages'',
        JArr [JObj [(''SPDXID'', JStr ''SPDXRef-npm-left-pad''), (''name'', JStr ''left-pad'')]])])]"

definition acme_world :: world where
  "acme_world =
     \<lparr>w_get_repositories =
        (\<lambda>org. if org = ''acme'' then Inr acme_listing else Inl ''Organization not found''),
      w_fetch_sbom =
        (\<lambda>tr ow rn. if rn = ''widgets'' then SbomFile ''sboms/acme_widgets_sbom.json''
                     else if rn = ''gears'' then NoSbom
                     else FetchRaised ''Expecting value''),
      w_json_load = (\<lambda>tr f. Inr widgets_sbom),
      w_store_ok = (\<lambda>tr. True),
      w_remaining = (\<lambda>tr. Some 15),
      w_timestamp = (\<lambda>tr. length tr)\<rparr>"

section \<open>SQLite's JSON functions\<close>

text \<open>
  The queries of \<^verbatim>\<open>sbom_processor.py\<close> are SQL text run by SQLite; this section models
  the parts of SQLite they use, after its documentation. A value in a result row is NULL,
  an INTEGER or a TEXT (Python receives \<^verbatim>\<open>None\<close>, an \<^verbatim>\<open>int\<close>, a \<^verbatim>\<open>str\<close>). A query
  either returns its rows or raises: \<^verbatim>\<open>malformed JSON\<close> from a JSON function, or
  \<^verbatim>\<open>OverflowError\<close> from binding a Python int outside 64 bits.
\<close>

datatype sqlval = SNull | SInt int | SText string

datatype sql_error = MalformedJSON | OverflowError

text \<open>
  The text of a JSON value in SQLite's minified form, as \<^verbatim>\<open>json_extract\<close> returns an array
  or an object.
\<close>

definition digit_char :: "nat \<Rightarrow> char" where
  "digit_char d = char_of (48 + d)"

fun show_nat :: "nat \<Rightarrow> string" where
  "show_nat n = (if n < 10 then [digit_char n] else show_nat (n div 10) @ [digit_char (n mod 10)])"

definition show_int :: "int \<Rightarrow> string" where
  "show_int i = (if i < 0 then CHR ''-'' # show_nat (nat (- i)) else show_nat (nat i))"

definition escape_char :: "char \<Rightarrow> string" where
  "escape_char c =
     (if c = CHR 0x22 then [CHR 0x5C, CHR 0x22]
      else if c = CHR 0x5C then [CHR 0x5C, CHR 0x5C]
      else [c])"

definition quote :: "string \<Rightarrow> string" where
  "quote s = [CHR 0x22] @ concat (map escape_char s) @ [CHR 0x22]"

fun commas :: "string list \<Rightarrow> string" where
  "commas [] = []"
| "commas [x] = x"
| "commas (x # y # ys) = x @ '','' @ commas (y # ys)"

fun json_text :: "json \<Rightarrow> string" where
  "json_text JNull = ''null''"
| "json_text (JBool b) = (if b then ''true'' else ''false'')"
| "json_text (JInt i) = show_int i"
| "json_text (JStr s) = quote s"
| "json_text (JArr xs) = ''['' @ commas (map json_text xs) @ '']''"
| "json_text (JObj kvs) = ''{'' @ commas (map (\<lambda>(k, v). quote k @ '':'' @ json_text v) kvs) @ ''}''"

text \<open>
  Reading a TEXT argument as JSON: \<open>None\<close> is \<^verbatim>\<open>malformed JSON\<close>. The reader covers the
  JSON of the \<open>json\<close> type above in its standard spelling (integers, the two-character
  escapes); its first argument bounds the depth of the recursion, and \<open>json_of_text\<close>
  starts it with one more than the length of the text.
\<close>

definition is_ws :: "char \<Rightarrow> bool" where
  "is_ws c = (c = CHR '' '' \<or> c = CHR 0x0A \<or> c = CHR 0x0D \<or> c = CHR 0x09)"

definition skip_ws :: "string \<Rightarrow> string" where
  "skip_ws s = dropWhile is_ws s"

definition is_digit :: "char \<Rightarrow> bool" where
  "is_digit c = (48 \<le> (of_char c :: nat) \<and> (of_char c :: nat) \<le> 57)"

definition nat_of_digits :: "string \<Rightarrow> nat" where
  "nat_of_digits ds = foldl (\<lambda>a c. 10 * a + (of_char c - 48)) 0 ds"

definition unescape :: "char \<Rightarrow> char option" where
  "unescape e =
     (if e = CHR 0x22 \<or> e = CHR 0x5C \<or> e = CHR ''/'' then Some e
      else if e = CHR ''b'' then Some (CHR 0x08)
      else if e = CHR ''f'' then Some (CHR 0x0C)
      else if e = CHR ''n'' then Some (CHR 0x0A)
      else if e = CHR ''r'' then Some (CHR 0x0D)
      else if e = CHR ''t'' then Some (CHR 0x09)
      else None)"

fun parse_string :: "string \<Rightarrow> (string \<times> string) option" where
  "parse_string [] = None"
| "parse_string (c # cs) =
     (if c = CHR 0x22 then Some ([], cs)
      else if c = CHR 0x5C then
        (case cs of
           [] \<Rightarrow> None
         | e # cs' \<Rightarrow>
             (case unescape e of
                None \<Rightarrow> None
              | Some ch \<Rightarrow> map_option (apfst ((#) ch)) (parse_string cs')))
      else if (of_char c :: nat) < 32 then None
      else map_option (apfst ((#) c)) (parse_string cs))"

definition parse_number :: "string \<Rightarrow> (json \<times> string) option" where
  "parse_number s =
     (let neg = (take 1 s = ''-'');
          body = (if neg then drop 1 s else s);
          ds = takeWhile is_digit body;
          rest = dropWhile is_digit body
      in if ds = [] \<or> (length ds > 1 \<and> hd ds = CHR ''0'') then None
         else if take 1 rest = ''.'' \<or> take 1 rest = ''e'' \<or> take 1 rest = ''E'' then None
         else Some (JInt (if neg then - int (nat_of_digits ds) else int (nat_of_digits ds)), rest))"

fun parse_value :: "nat \<Rightarrow> string \<Rightarrow> (json \<times> string) option"
  and parse_items :: "nat \<Rightarrow> string \<Rightarrow> (json list \<times> string) option"
  and parse_members :: "nat \<Rightarrow> string \<Rightarrow> ((string \<times> json) list \<times> string) option" where
  "parse_value 0 s = None"
| "parse_value (Suc n) s =
     (case skip_ws s of
        [] \<Rightarrow> None
      | c # cs \<Rightarrow>
          if c = CHR ''n'' then (if take 3 cs = ''ull'' then Some (JNull, drop 3 cs) else None)
          else if c = CHR ''t'' then (if take 3 cs = ''rue'' then Some (JBool True, drop 3 cs) else None)
          else if c = CHR ''f'' then (if take 4 cs = ''alse'' then Some (JBool False, drop 4 cs) else None)
          else if c = CHR 0x22 then map_option (apfst JStr) (parse_string cs)
          else if c = CHR ''['' then
            (if take 1 (skip_ws cs) = '']'' then Some (JArr [], drop 1 (skip_ws cs))
             else map_option (apfst JArr) (parse_items n cs))
          else if c = CHR ''{'' then
            (if take 1 (skip_ws cs) = ''}'' then Some (JObj [], drop 1 (skip_ws cs))
             else map_option (apfst JObj) (parse_members n cs))
          else if c = CHR ''-'' \<or> is_digit c then parse_number (c # cs)
          else None)"
| "parse_items 0 s = None"
| "parse_items (Suc n) s =
     (case parse_value n s of
        None \<Rightarrow> None
      | Some (v, r) \<Rightarrow>
          (case skip_ws r of
             [] \<Rightarrow> None
           | c # r' \<Rightarrow>
               if c = CHR '','' then map_option (apfst ((#) v)) (parse_items n r')
               else if c = CHR '']'' then Some ([v], r')
               else None))"
| "parse_members 0 s = None"
| "parse_members (Suc n) s =
     (case skip_ws s of
        [] \<Rightarrow> None
      | q # s' \<Rightarrow>
          if q \<noteq> CHR 0x22 then None
          else
            (case parse_string s' of
               None \<Rightarrow> None
             | Some (k, r) \<Rightarrow>
                 (case skip_ws r of
                    [] \<Rightarrow> None
                  | colon # r1 \<Rightarrow>
                      if colon \<noteq> CHR '':'' then None
                      else
                        (case parse_value n r1 of
                           None \<Rightarrow> None
                         | Some (v, r2) \<Rightarrow>
                             (case skip_ws r2 of
                                [] \<Rightarrow> None
                              | c # r3 \<Rightarrow>
                                  if c = CHR '','' then map_option (apfst ((#) (k, v))) (parse_members n r3)
                                  else if c = CHR ''}'' then Some ([(k, v)], r3)
                                  else None)))))"

definition json_of_text :: "string \<Rightarrow> json option" where
  "json_of_text s =
     (case parse_value (Suc (length s)) s of
        None \<Rightarrow> None
      | Some (j, rest) \<Rightarrow> if skip_ws rest = [] then Some j else None)"

text \<open>
  The path \<^verbatim>\<open>'$.sbom.packages'\<close>: the member \<^verbatim>\<open>packages\<close> of the member \<^verbatim>\<open>sbom\<close> of the
  document, when both are there.
\<close>

definition json_member :: "string \<Rightarrow> json \<Rightarrow> json option" where
  "json_member k j = (case j of JObj kvs \<Rightarrow> map_of kvs k | _ \<Rightarrow> None)"

definition packages_element :: "json \<Rightarrow> json option" where
  "packages_element doc = Option.bind (json_member ''sbom'' doc) (json_member ''packages'')"

text \<open>
  \<^verbatim>\<open>json_each(X, P)\<close> gives one row for each element of the array, or each member of the
  object, that the path finds; one row for the value itself when it is neither; no row
  when the path finds nothing. The column \<^verbatim>\<open>value\<close> of a row is JSON for an array or an
  object, and otherwise the SQL value: NULL for \<^verbatim>\<open>null\<close>, 1 and 0 for \<^verbatim>\<open>true\<close> and \<^verbatim>\<open>false\<close>, the
  number, or the text of a string without its quotes.
\<close>

datatype each_value = EachJson json | EachSql sqlval

definition json_to_sql :: "json \<Rightarrow> sqlval" where
  "json_to_sql v =
     (case v of
        JNull \<Rightarrow> SNull
      | JBool b \<Rightarrow> SInt (if b then 1 else 0)
      | JInt i \<Rightarrow> SInt i
      | JStr s \<Rightarrow> SText s
      | JArr xs \<Rightarrow> SText (json_text v)
      | JObj kvs \<Rightarrow> SText (json_text v))"

definition json_each_value :: "json \<Rightarrow> each_value" where
  "json_each_value v =
     (case v of
        JArr xs \<Rightarrow> EachJson v
      | JObj kvs \<Rightarrow> EachJson v
      | _ \<Rightarrow> EachSql (json_to_sql v))"

definition json_each :: "json \<Rightarrow> each_value list" where
  "json_each e =
     (case e of
        JArr xs \<Rightarrow> map json_each_value xs
      | JObj kvs \<Rightarrow> map (\<lambda>(k, v). json_each_value v) kvs
      | _ \<Rightarrow> [json_each_value e])"

definition package_rows :: "json \<Rightarrow> each_value list" where
  "package_rows doc = (case packages_element doc of None \<Rightarrow> [] | Some e \<Rightarrow> json_each e)"

text \<open>
  \<^verbatim>\<open>json_extract(json_each.value, '$.KEY')\<close>: the first argument is read as JSON. NULL gives
  NULL; a number is JSON and has no members; a text has to be well-formed JSON, or the
  function raises.
\<close>

definition member_sql :: "string \<Rightarrow> json \<Rightarrow> sqlval" where
  "member_sql k j = (case json_member k j of None \<Rightarrow> SNull | Some v \<Rightarrow> json_to_sql v)"

definition json_extract :: "each_value \<Rightarrow> string \<Rightarrow> sql_error + sqlval" where
  "json_extract x k =
     (case x of
        EachJson j \<Rightarrow> Inr (member_sql k j)
      | EachSql SNull \<Rightarrow> Inr SNull
      | EachSql (SInt i) \<Rightarrow> Inr SNull
      | EachSql (SText t) \<Rightarrow>
          (case json_of_text t of
             None \<Rightarrow> Inl MalformedJSON
           | Some j \<Rightarrow> Inr (member_sql k j)))"

text \<open>A query raises as soon as the evaluation of one of its rows raises.\<close>

fun collect :: "('e + 'a) list \<Rightarrow> 'e + 'a list" where
  "collect [] = Inr []"
| "collect (Inl e # xs) = Inl e"
| "collect (Inr x # xs) = (case collect xs of Inl e \<Rightarrow> Inl e | Inr ys \<Rightarrow> Inr (x # ys))"

section \<open>SBOMProcessor\<close>

text \<open>
  The rows \<^verbatim>\<open>FROM sbom, json_each(json(sbom.json_content), '$.sbom.packages')\<close> with
  \<^verbatim>\<open>json_extract(json_each.value, '$.SPDXID') IS NOT NULL\<close>, which all three statistics
  queries start from: the identities, document after document.
\<close>

definition spdx_ids :: "sbom_row list \<Rightarrow> sql_error + sqlval list" where
  "spdx_ids rows =
     (case collect (map (\<lambda>x. json_extract x ''SPDXID'')
                     (concat (map (\<lambda>r. package_rows (json_content r)) rows))) of
        Inl e \<Rightarrow> Inl e
      | Inr ids \<Rightarrow> Inr (filter (\<lambda>k. k \<noteq> SNull) ids))"

text \<open>
  \<^verbatim>\<open>package_name LIKE '%githubaction%'\<close>: LIKE ignores the case of ASCII letters, and a
  number is compared as its text.
\<close>

definition ascii_lower :: "char \<Rightarrow> char" where
  "ascii_lower c =
     (if 65 \<le> (of_char c :: nat) \<and> (of_char c :: nat) \<le> 90 then char_of (of_char c + 32 :: nat) else c)"

definition like_githubaction :: "sqlval \<Rightarrow> bool" where
  "like_githubaction v =
     (case v of
        SText t \<Rightarrow> sublist ''githubaction'' (map ascii_lower t)
      | _ \<Rightarrow> False)"

text \<open>
  \<^verbatim>\<open>get_top_dependencies(limit)\<close>:
  \<^verbatim>\<open>WHERE package_name IS NOT NULL AND package_name NOT LIKE '%githubaction%'
  GROUP BY package_name ORDER BY occurrence_count DESC LIMIT ?\<close>.
  A negative LIMIT is no limit. SQL leaves the order of groups with equal counts open;
  here they stay in the order \<open>remdups\<close> gives.
\<close>

definition get_top_dependencies :: "database \<Rightarrow> int \<Rightarrow> sql_error + (sqlval \<times> int) list" where
  "get_top_dependencies db limit =
     (if limit < - (2 ^ 63) \<or> 2 ^ 63 \<le> limit then Inl OverflowError
      else
        (case spdx_ids (sbom db) of
           Inl e \<Rightarrow> Inl e
         | Inr ids \<Rightarrow>
             (let names = filter (\<lambda>k. \<not> like_githubaction k) ids;
                  groups = map (\<lambda>k. (k, int (count_list names k))) (remdups names);
                  ordered = sort_key (\<lambda>(k, c). - c) groups
              in Inr (if limit < 0 then ordered else take (nat limit) ordered))))"

text \<open>
  \<^verbatim>\<open>get_dependency_stats()\<close>: \<^verbatim>\<open>COUNT(DISTINCT ...)\<close> and \<^verbatim>\<open>COUNT(*)\<close> over the rows with an
  identity, and \<^verbatim>\<open>get_sbom_count()\<close>.
\<close>

record dependency_stats =
  unique_dependencies :: int
  total_occurrences :: int
  sbom_count :: int

definition get_dependency_stats :: "database \<Rightarrow> sql_error + dependency_stats" where
  "get_dependency_stats db =
     (case spdx_ids (sbom db) of
        Inl e \<Rightarrow> Inl e
      | Inr ids \<Rightarrow>
          Inr \<lparr>unique_dependencies = int (length (remdups ids)),
               total_occurrences = int (length ids),
               sbom_count = get_sbom_count db\<rparr>)"

text \<open>
  \<^verbatim>\<open>get_dependencies_by_repo(repo_name)\<close>: the rows of the documents stored under
  \<^verbatim>\<open>repo_name\<close> that have an identity, each with its four extracted fields.
\<close>

record dependency =
  dep_package_name :: sqlval
  dep_name :: sqlval
  dep_version :: sqlval
  dep_license :: sqlval

definition dependency_row :: "each_value \<Rightarrow> sql_error + dependency option" where
  "dependency_row x =
     (case json_extract x ''SPDXID'' of
        Inl e \<Rightarrow> Inl e
      | Inr spdx \<Rightarrow>
          if spdx = SNull then Inr None
          else
            (case (json_extract x ''name'', json_extract x ''versionInfo'',
                   json_extract x ''licenseConcluded'') of
               (Inr n, Inr v, Inr l) \<Rightarrow>
                 Inr (Some \<lparr>dep_package_name = spdx, dep_name = n, dep_version = v, dep_license = l\<rparr>)
             | _ \<Rightarrow> Inl MalformedJSON))"

definition get_dependencies_by_repo :: "database \<Rightarrow> string \<Rightarrow> sql_error + dependency list" where
  "get_dependencies_by_repo db repo =
     (case collect (map dependency_row
                     (concat (map (\<lambda>r. package_rows (json_content r))
                                (filter (\<lambda>r. source_repo r = repo) (sbom db))))) of
        Inl e \<Rightarrow> Inl e
      | Inr rows \<Rightarrow> Inr (List.map_filter id rows))"

text \<open>
  A document that gives no package row: its path \<^verbatim>\<open>$.sbom.packages\<close> is missing, or what
  stands there (each element or member of it, for an array or an object) is neither a
  string nor an object with an \<^verbatim>\<open>SPDXID\<close> other than \<^verbatim>\<open>null\<close>.
\<close>

definition silent_value :: "json \<Rightarrow> bool" where
  "silent_value v =
     (case v of
        JStr t \<Rightarrow> False
      | JObj kvs \<Rightarrow> (case map_of kvs ''SPDXID'' of None \<Rightarrow> True | Some i \<Rightarrow> i = JNull)
      | _ \<Rightarrow> True)"

definition without_packages :: "json \<Rightarrow> bool" where
  "without_packages doc =
     (case packages_element doc of
        None \<Rightarrow> True
      | Some e \<Rightarrow>
          (case e of
             JArr xs \<Rightarrow> list_all silent_value xs
           | JObj kvs \<Rightarrow> list_all (\<lambda>(k, v). silent_value v) kvs
           | _ \<Rightarrow> silent_value e))"

definition drop_without_packages :: "database \<Rightarrow> database" where
  "drop_without_packages db =
     db\<lparr>sbom := filter (\<lambda>r. \<not> without_packages (json_content r)) (sbom db)\<rparr>"

text \<open>Documents and stores to run the queries on.\<close>

definition db_of :: "(string \<times> json) list \<Rightarrow> database" where
  "db_of docs = foldl (\<lambda>db (k, d). insert_or_replace_sbom 0 k d db) init_database docs"

definition pkg :: "string \<Rightarrow> json" where
  "pkg i = JObj [(''SPDXID'', JStr i), (''name'', JStr i), (''versionInfo'', JStr ''1.0'')]"

definition sbom_doc :: "json \<Rightarrow> json" where
  "sbom_doc packages = JObj [(''sbom'', JObj [(''packages'', packages)])]"


definition corpus :: database where
  "corpus =
     db_of [(''acme/widgets'', sbom_doc (JArr [pkg ''A'', pkg ''B'', pkg ''A''])),
            (''acme/empty'', JObj [(''sbom'', JObj [])]),
            (''acme/gears'',
               sbom_doc (JArr [pkg ''B'', pkg ''A'', pkg ''C-GitHubActions'', JInt 3,
                               JObj [(''SPDXID'', JInt 3)]]))]"

definition text_corpus :: database where
  "text_corpus = db_of [(''acme/widgets'', sbom_doc (JArr [JStr ''left-pad'']))]"

section \<open>Session updates\<close>

lemma update_row_frame:
  "org_name (update_row now p st r) = org_name r"
  "total_repos (update_row now p st r) = total_repos r"
  "created_at (update_row now p st r) = created_at r"
  "session_id (update_row now p st r) = session_id r"
  by (simp_all add: update_row_def)

lemma get_session_update:
  "get_session (update_analysis_session now sid p st db) t =
     (if t = sid then map_option (update_row now p st) (get_session db sid)
      else get_session db t)"
proof -
  have "find (\<lambda>r. session_id r = t)
          (map (\<lambda>r. if session_id r = sid then update_row now p st r else r) rs) =
        (if t = sid then map_option (update_row now p st) (find (\<lambda>r. session_id r = sid) rs)
         else find (\<lambda>r. session_id r = t) rs)" for rs
    by (induction rs) (auto simp: update_row_frame)
  then show ?thesis
    by (simp add: get_session_def update_analysis_session_def)
qed

text \<open>
  C10. A session update touches the row of its own session only, and there only
  \<^verbatim>\<open>processed_repos\<close> and \<^verbatim>\<open>status\<close>, plus \<^verbatim>\<open>completed_at\<close> exactly when the status written
  is \<^verbatim>\<open>'completed'\<close>: with any other status \<^verbatim>\<open>completed_at\<close> keeps its value; \<^verbatim>\<open>org_name\<close>,
  \<^verbatim>\<open>total_repos\<close>, \<^verbatim>\<open>created_at\<close> and the row's id are never changed; every other row, the
  number and order of the rows, and the \<^verbatim>\<open>sbom\<close> table stay as they were.
\<close>

theorem update_analysis_session_frame:
  "length (analysis_sessions (update_analysis_session now sid p st db)) =
     length (analysis_sessions db) \<and>
   sbom (update_analysis_session now sid p st db) = sbom db \<and>
   sbom_seq (update_analysis_session now sid p st db) = sbom_seq db \<and>
   sessions_seq (update_analysis_session now sid p st db) = sessions_seq db \<and>
   (\<forall>i < length (analysis_sessions db).
      let r = analysis_sessions db ! i;
          r' = analysis_sessions (update_analysis_session now sid p st db) ! i
      in session_id r' = session_id r \<and> org_name r' = org_name r \<and>
         total_repos r' = total_repos r \<and> created_at r' = created_at r \<and>
         (session_id r \<noteq> sid \<longrightarrow> r' = r) \<and>
         (st \<noteq> ''completed'' \<longrightarrow> completed_at r' = completed_at r) \<and>
         (completed_at r' \<noteq> completed_at r \<longrightarrow> st = ''completed'' \<and> session_id r = sid) \<and>
         (session_id r = sid \<longrightarrow> processed_repos r' = p \<and> status r' = st) \<and>
         (session_id r = sid \<and> st = ''completed'' \<longrightarrow> completed_at r' = Some now))"
  by (auto simp: update_analysis_session_def update_row_def Let_def)

theorem update_analysis_session_frame_witness:
  "let db = snd (create_analysis_session 7 ''acme'' 3 (snd (create_analysis_session 5 ''other'' 2 init_database)));
       db' = update_analysis_session 9 2 1 ''processing'' db;
       db'' = update_analysis_session 11 2 3 ''completed'' db'
   in analysis_sessions db' =
        [\<lparr>session_id = 1, org_name = ''other'', total_repos = 2, processed_repos = 0,
          status = ''pending'', created_at = 5, completed_at = None\<rparr>,
         \<lparr>session_id = 2, org_name = ''acme'', total_repos = 3, processed_repos = 1,
          status = ''processing'', created_at = 7, completed_at = None\<rparr>] \<and>
      analysis_sessions db'' =
        [\<lparr>session_id = 1, org_name = ''other'', total_repos = 2, processed_repos = 0,
          status = ''pending'', created_at = 5, completed_at = None\<rparr>,
         \<lparr>session_id = 2, org_name = ''acme'', total_repos = 3, processed_repos = 3,
          status = ''completed'', created_at = 7, completed_at = Some 11\<rparr>]"
  using update_analysis_session_frame [of 9 2 1 "''processing''"
      "snd (create_analysis_session 7 ''acme'' 3 (snd (create_analysis_session 5 ''other'' 2 init_database)))"]
  by (simp add: update_analysis_session_def update_row_def create_analysis_session_def
      init_database_def Let_def)

section \<open>Document store\<close>

lemma sbom_insert_or_replace:
  "map (\<lambda>r. (source_repo r, json_content r)) (sbom (insert_or_replace_sbom now k d db)) =
     filter (\<lambda>p. fst p \<noteq> k) (map (\<lambda>r. (source_repo r, json_content r)) (sbom db)) @ [(k, d)]"
  by (simp add: insert_or_replace_sbom_def filter_map comp_def)

lemma get_all_sboms_store:
  "store_sbom ok now k d db = (True, db') \<Longrightarrow>
     get_all_sboms db' = filter (\<lambda>p. fst p \<noteq> k) (get_all_sboms db) @ [(k, d)]"
  by (auto simp: store_sbom_def get_all_sboms_def sbom_insert_or_replace split: if_splits)

text \<open>
  C6. When two writes under the same repository key both succeed, first of \<open>d1\<close> and then
  of \<open>d2\<close>, the store holds exactly one document under that key and it is \<open>d2\<close>; the
  documents under every other key are the ones held before, in their order; and writing
  \<open>d2\<close> once more leaves the stored documents (what \<^verbatim>\<open>get_all_sboms\<close> and
  \<^verbatim>\<open>get_sbom_count\<close> read) as one write of \<open>d2\<close> leaves them. The row's id and
  \<^verbatim>\<open>created_at\<close> are fresh after every write.
\<close>

theorem store_sbom_upsert:
  assumes "store_sbom ok1 t1 k d1 db = (True, db1)"
      and "store_sbom ok2 t2 k d2 db1 = (True, db2)"
      and "store_sbom ok3 t3 k d2 db2 = (True, db3)"
  shows "filter (\<lambda>p. fst p = k) (get_all_sboms db2) = [(k, d2)] \<and>
         filter (\<lambda>p. fst p \<noteq> k) (get_all_sboms db2) =
           filter (\<lambda>p. fst p \<noteq> k) (get_all_sboms db) \<and>
         get_all_sboms db3 = get_all_sboms db2 \<and>
         get_sbom_count db3 = get_sbom_count db2"
proof -
  note s1 = get_all_sboms_store [OF assms(1)]
  note s2 = get_all_sboms_store [OF assms(2)]
  note s3 = get_all_sboms_store [OF assms(3)]
  have one: "filter (\<lambda>p. fst p = k) (get_all_sboms db2) = [(k, d2)]"
    by (simp add: s2)
  have others: "filter (\<lambda>p. fst p \<noteq> k) (get_all_sboms db2) =
      filter (\<lambda>p. fst p \<noteq> k) (get_all_sboms db)"
    by (simp add: s2 s1)
  have eq: "get_all_sboms db3 = get_all_sboms db2"
    by (simp add: s3 s2)
  have "length (get_all_sboms db3) = length (get_all_sboms db2)"
    by (simp only: eq)
  then have "get_sbom_count db3 = get_sbom_count db2"
    by (simp add: get_sbom_count_def get_all_sboms_def)
  with one others eq show ?thesis
    by blast
qed

theorem store_sbom_upsert_witness:
  "let db = snd (store_sbom True 1 ''acme/gears'' (JObj [(''v'', JInt 0)]) init_database);
       db1 = snd (store_sbom True 2 ''acme/widgets'' (JObj [(''v'', JInt 1)]) db);
       db2 = snd (store_sbom True 3 ''acme/widgets'' (JObj [(''v'', JInt 2)]) db1);
       db3 = snd (store_sbom True 4 ''acme/widgets'' (JObj [(''v'', JInt 2)]) db2)
   in get_all_sboms db2 =
        [(''acme/gears'', JObj [(''v'', JInt 0)]), (''acme/widgets'', JObj [(''v'', JInt 2)])] \<and>
      filter (\<lambda>p. fst p = ''acme/widgets'') (get_all_sboms db2) =
        [(''acme/widgets'', JObj [(''v'', JInt 2)])] \<and>
      get_all_sboms db3 = get_all_sboms db2 \<and>
      map sbom_id (sbom db2) = [1, 3] \<and> map sbom_id (sbom db3) = [1, 4]"
  using store_sbom_upsert [of True 2 "''acme/widgets''" "JObj [(''v'', JInt 1)]"
      "snd (store_sbom True 1 ''acme/gears'' (JObj [(''v'', JInt 0)]) init_database)"
      "snd (store_sbom True 2 ''acme/widgets'' (JObj [(''v'', JInt 1)])
         (snd (store_sbom True 1 ''acme/gears'' (JObj [(''v'', JInt 0)]) init_database)))"
      True 3 "JObj [(''v'', JInt 2)]"
      "snd (store_sbom True 3 ''acme/widgets'' (JObj [(''v'', JInt 2)])
         (snd (store_sbom True 2 ''acme/widgets'' (JObj [(''v'', JInt 1)])
           (snd (store_sbom True 1 ''acme/gears'' (JObj [(''v'', JInt 0)]) init_database)))))"
      True 4
      "snd (store_sbom True 4 ''acme/widgets'' (JObj [(''v'', JInt 2)])
        (snd (store_sbom True 3 ''acme/widgets'' (JObj [(''v'', JInt 2)])
         (snd (store_sbom True 2 ''acme/widgets'' (JObj [(''v'', JInt 1)])
           (snd (store_sbom True 1 ''acme/gears'' (JObj [(''v'', JInt 0)]) init_database)))))))"]
  by (simp add: store_sbom_def insert_or_replace_sbom_def get_all_sboms_def init_database_def
      Let_def)

section \<open>Requests and the quota\<close>

lemma http_gets_append: "http_gets (xs @ ys) = http_gets xs @ http_gets ys"
  by (induction xs rule: http_gets.induct) auto










section \<open>The scan\<close>

lemma fetches_append: "fetches (xs @ ys) = fetches xs @ fetches ys"
  by (induction xs rule: fetches.induct) auto

lemma session_updates_append: "session_updates (xs @ ys) = session_updates xs @ session_updates ys"
  by (induction xs rule: session_updates.induct) auto

lemma analysis_sessions_store:
  "analysis_sessions (snd (store_sbom ok now k d db)) = analysis_sessions db"
  by (simp add: store_sbom_def insert_or_replace_sbom_def)

lemma try_block_cases:
  obtains (raised) e where "try_block w sid repo s = Inl (e, fetched repo s)"
  | (counted) db' where
      "try_block w sid repo s = Inr (pace w (count_processed w sid ((fetched repo s)\<lparr>s_db := db'\<rparr>)))"
      "analysis_sessions db' = analysis_sessions (s_db s)"
proof (cases "w_fetch_sbom w (s_io s) (owner_login repo) (repo_name repo)")
  case (FetchRaised e)
  then have "try_block w sid repo s = Inl (e, fetched repo s)"
    by (simp add: try_block_def fetched_def Let_def)
  then show ?thesis by (rule raised)
next
  case NoSbom
  then have "try_block w sid repo s =
      Inr (pace w (count_processed w sid ((fetched repo s)\<lparr>s_db := s_db s\<rparr>)))"
    by (simp add: try_block_def fetched_def pace_def Let_def)
  then show ?thesis by (rule counted) simp
next
  case (SbomFile f)
  show ?thesis
  proof (cases "f = []")
    case True
    with SbomFile have "try_block w sid repo s =
        Inr (pace w (count_processed w sid ((fetched repo s)\<lparr>s_db := s_db s\<rparr>)))"
      by (simp add: try_block_def fetched_def pace_def Let_def)
    then show ?thesis by (rule counted) simp
  next
    case False
    show ?thesis
    proof (cases "w_json_load w (s_io (fetched repo s)) f")
      case (Inl e)
      with SbomFile False have "try_block w sid repo s = Inl (e, fetched repo s)"
        by (simp add: try_block_def fetched_def Let_def)
      then show ?thesis by (rule raised)
    next
      case (Inr content)
      let ?db = "snd (store_sbom (w_store_ok w (s_io (fetched repo s)))
                    (w_timestamp w (s_io (fetched repo s)))
                    (owner_login repo @ ''/'' @ repo_name repo) content (s_db s))"
      from SbomFile False Inr have "try_block w sid repo s =
          Inr (pace w (count_processed w sid ((fetched repo s)\<lparr>s_db := ?db\<rparr>)))"
        by (simp add: try_block_def fetched_def pace_def Let_def)
      then show ?thesis by (rule counted) (simp add: analysis_sessions_store)
    qed
  qed
qed

lemma pace_fields:
  "s_db (pace w s) = s_db s" "s_progress (pace w s) = s_progress s" "s_count (pace w s) = s_count s"
  "fetches (s_io (pace w s)) = fetches (s_io s)"
  "session_updates (s_io (pace w s)) = session_updates (s_io s)"
  by (simp_all add: pace_def adaptive_delay_def monitor_rate_limit_def fetches_append
      session_updates_append split: option.splits)

lemma count_processed_fields:
  "s_count (count_processed w sid s) = s_count s + 1"
  "s_progress (count_processed w sid s) = (s_progress s)\<lparr>p_processed := s_count s + 1\<rparr>"
  "s_db (count_processed w sid s) =
     update_analysis_session (w_timestamp w (s_io s)) sid (s_count s + 1) ''processing'' (s_db s)"
  "s_io (count_processed w sid s) = s_io s @ [UpdateSession sid (s_count s + 1) ''processing'']"
  by (simp_all add: count_processed_def Let_def)

lemma fetched_fields:
  "s_count (fetched repo s) = s_count s"
  "s_db (fetched repo s) = s_db s"
  "s_io (fetched repo s) = s_io s @ [FetchSbom (owner_login repo) (repo_name repo)]"
  "p_errors (s_progress (fetched repo s)) = p_errors (s_progress s)"
  "p_status (s_progress (fetched repo s)) = p_status (s_progress s)"
  "p_total (s_progress (fetched repo s)) = p_total (s_progress s)"
  by (simp_all add: fetched_def)

lemma process_repo_step:
  "s_count (process_repo w sid repo s) = s_count s + 1"
  "p_processed (s_progress (process_repo w sid repo s)) = s_count s + 1"
  "p_status (s_progress (process_repo w sid repo s)) = p_status (s_progress s)"
  "p_total (s_progress (process_repo w sid repo s)) = p_total (s_progress s)"
  "p_errors (s_progress (process_repo w sid repo s)) =
     p_errors (s_progress s) @
       (case try_block w sid repo s of Inl (e, _) \<Rightarrow> [error_msg repo e] | Inr _ \<Rightarrow> [])"
  "fetches (s_io (process_repo w sid repo s)) =
     fetches (s_io s) @ [(owner_login repo, repo_name repo)]"
  "session_updates (s_io (process_repo w sid repo s)) =
     session_updates (s_io s) @ [(sid, s_count s + 1, ''processing'')]"
  "analysis_sessions (s_db (process_repo w sid repo s)) =
     map (\<lambda>r. if session_id r = sid then r\<lparr>processed_repos := s_count s + 1, status := ''processing''\<rparr> else r)
       (analysis_sessions (s_db s))"
  by (cases rule: try_block_cases [of w sid repo s];
      simp add: process_repo_def handler_def pace_fields count_processed_fields fetched_fields
        fetches_append session_updates_append update_analysis_session_def update_row_def)+

lemma analyze_repos_snoc:
  "analyze_repos w sid (repos @ [repo]) s = process_repo w sid repo (analyze_repos w sid repos s)"
  by (induction repos arbitrary: s) simp_all


lemma analyze_repos_count:
  "s_count (analyze_repos w sid repos s) = s_count s + int (length repos)"
  by (induction repos rule: rev_induct) (simp_all add: analyze_repos_snoc process_repo_step)

lemma analyze_repos_processed:
  "p_processed (s_progress (analyze_repos w sid repos s)) =
     (if repos = [] then p_processed (s_progress s) else s_count s + int (length repos))"
  by (cases repos rule: rev_cases)
     (simp_all add: analyze_repos_snoc process_repo_step analyze_repos_count)

lemma analyze_repos_status:
  "p_status (s_progress (analyze_repos w sid repos s)) = p_status (s_progress s)"
  "p_total (s_progress (analyze_repos w sid repos s)) = p_total (s_progress s)"
  by (induction repos rule: rev_induct; simp add: analyze_repos_snoc process_repo_step)+

lemma analyze_repos_fetches:
  "fetches (s_io (analyze_repos w sid repos s)) =
     fetches (s_io s) @ map (\<lambda>r. (owner_login r, repo_name r)) repos"
  by (induction repos rule: rev_induct) (simp_all add: analyze_repos_snoc process_repo_step)

lemma analyze_repos_updates:
  "session_updates (s_io (analyze_repos w sid repos s)) =
     session_updates (s_io s) @
       map (\<lambda>i. (sid, s_count s + int i, ''processing'')) [1..<Suc (length repos)]"
  by (induction repos rule: rev_induct)
     (simp_all add: analyze_repos_snoc process_repo_step analyze_repos_count)

lemmas analyze_repos_fields = analyze_repos_count analyze_repos_processed analyze_repos_status
  analyze_repos_fetches analyze_repos_updates

lemma analyze_repos_sessions:
  "analysis_sessions (s_db (analyze_repos w sid repos s)) =
     (if repos = [] then analysis_sessions (s_db s)
      else map (\<lambda>r. if session_id r = sid
                     then r\<lparr>processed_repos := s_count s + int (length repos), status := ''processing''\<rparr>
                     else r) (analysis_sessions (s_db s)))"
proof (induction repos rule: rev_induct)
  case Nil
  show ?case by simp
next
  case (snoc x xs)
  show ?case
    by (cases "xs = []")
       (simp_all add: analyze_repos_snoc process_repo_step snoc analyze_repos_fields comp_def
          if_distrib [of "\<lambda>r. session_id r"] cong: if_cong)
qed

lemma find_map_own_row:
  assumes "\<And>r. session_id (f r) = session_id r"
  shows "find (\<lambda>r. session_id r = sid) (map (\<lambda>r. if session_id r = sid then f r else r) rs) =
         map_option f (find (\<lambda>r. session_id r = sid) rs)"
  by (induction rs) (simp_all add: assms)

lemma get_session_analyze_repos:
  "get_session (s_db (analyze_repos w sid repos s)) sid =
     (if repos = [] then get_session (s_db s) sid
      else map_option (\<lambda>r. r\<lparr>processed_repos := s_count s + int (length repos), status := ''processing''\<rparr>)
             (get_session (s_db s) sid))"
  by (simp add: get_session_def analyze_repos_sessions find_map_own_row)

lemma start_state_fields:
  "s_db (start_state repos db0) = db0" "s_count (start_state repos db0) = 0"
  "s_io (start_state repos db0) = []"
  "p_status (s_progress (start_state repos db0)) = ''processing''"
  "p_processed (s_progress (start_state repos db0)) = 0"
  "p_total (s_progress (start_state repos db0)) = int (length repos)"
  "p_errors (s_progress (start_state repos db0)) = []"
  by (simp_all add: start_state_def)

lemma update_row_completed:
  "update_row t n ''completed'' =
     (\<lambda>r. r\<lparr>processed_repos := n, status := ''completed'', completed_at := Some t\<rparr>)"
  by (rule ext) (simp add: update_row_def)

lemma get_session_analyze_organization:
  "get_session (s_db (analyze_organization w org repos sid db0)) sid =
     map_option (\<lambda>r. r\<lparr>processed_repos := int (length repos), status := ''completed'',
                       completed_at := Some (w_timestamp w
                          (s_io (analyze_repos w sid repos (start_state repos db0))))\<rparr>)
       (get_session db0 sid)"
  by (simp add: analyze_organization_def Let_def get_session_update get_session_analyze_repos
      analyze_repos_count start_state_fields update_row_completed option.map_comp comp_def)

lemmas scan_defs = analyze_def get_public_repositories_def create_analysis_session_def
  analyze_organization_def process_repo_def try_block_def handler_def error_msg_def
  count_processed_def monitor_rate_limit_def adaptive_delay_def start_state_def
  update_analysis_session_def update_row_def store_sbom_def insert_or_replace_sbom_def
  acme_world_def acme_listing_def init_database_def Let_def



lemma sessions_ok_fresh:
  "sessions_ok db \<Longrightarrow> get_session db (Suc (sessions_seq db)) = None"
  by (auto simp: sessions_ok_def get_session_def find_None_iff list_all_iff)

lemma find_append_None:
  "find P xs = None \<Longrightarrow> find P (xs @ ys) = find P ys"
  by (induction xs) (auto split: if_splits)

lemma get_session_create:
  assumes "sessions_ok db"
  shows "get_session (snd (create_analysis_session t org n db)) (Suc (sessions_seq db)) =
           Some \<lparr>session_id = Suc (sessions_seq db), org_name = org, total_repos = n,
                 processed_repos = 0, status = ''pending'', created_at = t, completed_at = None\<rparr>"
proof -
  have "find (\<lambda>r. session_id r = Suc (sessions_seq db)) (analysis_sessions db) = None"
    using sessions_ok_fresh [OF assms] by (simp add: get_session_def)
  then show ?thesis
    by (simp add: get_session_def create_analysis_session_def find_append_None)
qed

lemma analyze_Started:
  assumes "analyze w db0 org = Started sid final"
  shows "\<exists>listing. w_get_repositories w org = Inr listing \<and>
           filter (\<lambda>r. visibility r = ''public'') listing \<noteq> [] \<and>
           get_public_repositories w org = Inr (filter (\<lambda>r. visibility r = ''public'') listing) \<and>
           sid = Suc (sessions_seq db0) \<and>
           final = analyze_organization w org (filter (\<lambda>r. visibility r = ''public'') listing) sid
             (snd (create_analysis_session (w_timestamp w []) org
                (int (length (filter (\<lambda>r. visibility r = ''public'') listing))) db0))"
  using assms
  by (auto simp: analyze_def get_public_repositories_def create_analysis_session_def
      split: if_splits sum.splits)

lemma analyze_organization_fields:
  "s_count (analyze_organization w org repos sid db0) = int (length repos)"
  "fetches (s_io (analyze_organization w org repos sid db0)) =
     map (\<lambda>r. (owner_login r, repo_name r)) repos"
  "p_total (s_progress (analyze_organization w org repos sid db0)) = int (length repos)"
  "session_updates (s_io (analyze_organization w org repos sid db0)) =
     map (\<lambda>i. (sid, int i, ''processing'')) [1..<Suc (length repos)] @
       [(sid, int (length repos), ''completed'')]"
  by (simp_all add: analyze_organization_def Let_def fetches_append session_updates_append
      analyze_repos_fields start_state_fields)

lemma acme_scan:
  "sessions_ok init_database"
  "analyze acme_world init_database ''acme'' =
     Started 1 (analyze_organization acme_world ''acme''
                  (filter (\<lambda>r. visibility r = ''public'') acme_listing) 1
                  (snd (create_analysis_session 0 ''acme'' 3 init_database)))"
  by (simp_all add: sessions_ok_def analyze_def get_public_repositories_def
      create_analysis_session_def acme_world_def acme_listing_def init_database_def)

text \<open>
  C9. A scan that \<^verbatim>\<open>analyze\<close> starts works on the entries of the listing whose visibility is
  \<^verbatim>\<open>'public'\<close> and on no other: there is at least one of them, \<^verbatim>\<open>fetch_sbom\<close> is called for
  exactly these in listing order, and their number is the \<^verbatim>\<open>total\<close> of the progress entry
  and the \<^verbatim>\<open>total_repos\<close> of the session row, which is new.
\<close>

theorem analyze_public_only:
  assumes "sessions_ok db0" and "analyze w db0 org = Started sid final"
  shows "\<exists>listing row.
           w_get_repositories w org = Inr listing \<and>
           filter (\<lambda>r. visibility r = ''public'') listing \<noteq> [] \<and>
           fetches (s_io final) =
             map (\<lambda>r. (owner_login r, repo_name r)) (filter (\<lambda>r. visibility r = ''public'') listing) \<and>
           p_total (s_progress final) = int (length (filter (\<lambda>r. visibility r = ''public'') listing)) \<and>
           get_session db0 sid = None \<and>
           get_session (s_db final) sid = Some row \<and>
           org_name row = org \<and>
           total_repos row = int (length (filter (\<lambda>r. visibility r = ''public'') listing))"
proof -
  from analyze_Started [OF assms(2)] obtain listing where
      l: "w_get_repositories w org = Inr listing"
         "filter (\<lambda>r. visibility r = ''public'') listing \<noteq> []"
         "sid = Suc (sessions_seq db0)"
         "final = analyze_organization w org (filter (\<lambda>r. visibility r = ''public'') listing) sid
             (snd (create_analysis_session (w_timestamp w []) org
                (int (length (filter (\<lambda>r. visibility r = ''public'') listing))) db0))"
    by blast
  let ?pub = "filter (\<lambda>r. visibility r = ''public'') listing"
  let ?db1 = "snd (create_analysis_session (w_timestamp w []) org (int (length ?pub)) db0)"
  have f: "fetches (s_io final) = map (\<lambda>r. (owner_login r, repo_name r)) ?pub"
    unfolding l(4) by (rule analyze_organization_fields)
  have t: "p_total (s_progress final) = int (length ?pub)"
    unfolding l(4) by (rule analyze_organization_fields)
  have fresh: "get_session db0 sid = None"
    using sessions_ok_fresh [OF assms(1)] l(3) by simp
  have "get_session (s_db final) sid =
      map_option (\<lambda>r. r\<lparr>processed_repos := int (length ?pub), status := ''completed'',
                       completed_at := Some (w_timestamp w
                          (s_io (analyze_repos w sid ?pub (start_state ?pub ?db1))))\<rparr>)
       (get_session ?db1 sid)"
    unfolding l(4) by (rule get_session_analyze_organization)
  then have "\<exists>row. get_session (s_db final) sid = Some row \<and> org_name row = org \<and>
      total_repos row = int (length ?pub)"
    using get_session_create [OF assms(1), of "w_timestamp w []" org "int (length ?pub)"] l(3)
    by simp
  with l(1,2) f t fresh show ?thesis by blast
qed

theorem analyze_public_only_witness:
  "sessions_ok init_database \<and>
   (case analyze acme_world init_database ''acme'' of
      Rejected e \<Rightarrow> False
    | Started sid final \<Rightarrow>
        sid = 1 \<and>
        fetches (s_io final) = [(''acme'', ''widgets''), (''acme'', ''gears''), (''acme'', ''bolts'')] \<and>
        p_total (s_progress final) = 3 \<and>
        map total_repos (analysis_sessions (s_db final)) = [3])"
  using analyze_public_only [OF acme_scan] acme_scan
  by (simp add: scan_defs)








section \<open>The queries\<close>





lemma collect_returns:
  "list_all (\<lambda>x. \<exists>v. f x = Inr v) xs \<Longrightarrow> \<exists>vs. collect (map f xs) = Inr vs"
proof (induction xs)
  case Nil
  show ?case by simp
next
  case (Cons x xs)
  then obtain v vs where "f x = Inr v" "collect (map f xs) = Inr vs"
    by auto
  then show ?case by simp
qed

text \<open>
  The query returns on every store in which no package row is a text that is not JSON,
  for every limit that fits 64 bits: in particular when all package entries are objects.
\<close>

lemma get_top_dependencies_returns:
  assumes "list_all (\<lambda>r. list_all (\<lambda>x. \<forall>t. x = EachSql (SText t) \<longrightarrow> json_of_text t \<noteq> None)
                           (package_rows (json_content r))) (sbom db)"
      and "- (2 ^ 63) \<le> n" and "n < 2 ^ 63"
  shows "\<exists>rows. get_top_dependencies db n = Inr rows"
proof -
  have "\<exists>v. json_extract x ''SPDXID'' = Inr v"
    if "\<forall>t. x = EachSql (SText t) \<longrightarrow> json_of_text t \<noteq> None" for x
    using that by (auto simp: json_extract_def split: each_value.splits sqlval.splits option.splits)
  with assms(1) have "list_all (\<lambda>x. \<exists>v. json_extract x ''SPDXID'' = Inr v)
      (concat (map (\<lambda>r. package_rows (json_content r)) (sbom db)))"
    by (auto simp: list_all_iff)
  from collect_returns [OF this] obtain ids where "spdx_ids (sbom db) = Inr ids"
    by (auto simp: spdx_ids_def)
  with assms(2,3) show ?thesis
    by (simp add: get_top_dependencies_def Let_def)
qed





lemma collect_append:
  "collect (xs @ ys) =
     (case collect xs of
        Inl e \<Rightarrow> Inl e
      | Inr a \<Rightarrow> (case collect ys of Inl e \<Rightarrow> Inl e | Inr b \<Rightarrow> Inr (a @ b)))"
  by (induction xs rule: collect.induct) (auto split: sum.splits)

lemma spdx_ids_Cons:
  "spdx_ids (r # rows) =
     (case spdx_ids [r] of
        Inl e \<Rightarrow> Inl e
      | Inr a \<Rightarrow> (case spdx_ids rows of Inl e \<Rightarrow> Inl e | Inr b \<Rightarrow> Inr (a @ b)))"
  by (simp add: spdx_ids_def collect_append split: sum.splits)

lemma silent_value_extract:
  "silent_value v \<Longrightarrow> json_extract (json_each_value v) ''SPDXID'' = Inr SNull"
  by (cases v)
     (auto simp: silent_value_def json_extract_def json_each_value_def json_to_sql_def
        member_sql_def json_member_def split: option.splits)

lemma collect_all_null:
  "list_all (\<lambda>x. f x = Inr SNull) xs \<Longrightarrow> collect (map f xs) = Inr (replicate (length xs) SNull)"
  by (induction xs) auto

lemma without_packages_rows:
  assumes "without_packages doc"
  shows "list_all (\<lambda>x. json_extract x ''SPDXID'' = Inr SNull) (package_rows doc)"
proof (cases "packages_element doc")
  case None
  then show ?thesis by (simp add: package_rows_def)
next
  case (Some e)
  with assms show ?thesis
    by (cases e)
       (auto simp: without_packages_def package_rows_def json_each_def list_all_iff
          silent_value_extract split: prod.splits)
qed

lemma spdx_ids_without_packages:
  "without_packages (json_content r) \<Longrightarrow> spdx_ids [r] = Inr []"
  using collect_all_null [OF without_packages_rows, of "json_content r"]
  by (simp add: spdx_ids_def)

lemma spdx_ids_drop:
  "spdx_ids (filter (\<lambda>r. \<not> without_packages (json_content r)) rows) = spdx_ids rows"
proof (induction rows)
  case Nil
  show ?case by simp
next
  case (Cons r rows)
  show ?case
  proof (cases "without_packages (json_content r)")
    case True
    then show ?thesis
      using Cons by (simp add: spdx_ids_Cons [of r rows] spdx_ids_without_packages split: sum.splits)
  next
    case False
    then show ?thesis
      using Cons
      by (simp add: spdx_ids_Cons [of r rows]
          spdx_ids_Cons [of r "filter (\<lambda>r. \<not> without_packages (json_content r)) rows"]
          split: sum.splits)
  qed
qed

lemma dependency_row_null:
  "json_extract x ''SPDXID'' = Inr SNull \<Longrightarrow> dependency_row x = Inr None"
  by (simp add: dependency_row_def)

lemma collect_all_None:
  "list_all (\<lambda>x. f x = Inr None) xs \<Longrightarrow> collect (map f xs) = Inr (replicate (length xs) None)"
  by (induction xs) auto

lemma map_filter_replicate_None: "List.map_filter id (replicate n None) = []"
  by (induction n) (simp_all add: List.map_filter_simps)

lemma by_repo_without_packages:
  assumes "list_all (\<lambda>r. source_repo r = repo \<longrightarrow> without_packages (json_content r)) (sbom db)"
  shows "get_dependencies_by_repo db repo = Inr []"
proof -
  have "list_all (\<lambda>x. dependency_row x = Inr None)
          (concat (map (\<lambda>r. package_rows (json_content r))
             (filter (\<lambda>r. source_repo r = repo) (sbom db))))"
    using assms without_packages_rows
    by (auto simp: list_all_iff dependency_row_null)
  from collect_all_None [OF this] show ?thesis
    by (simp add: get_dependencies_by_repo_def map_filter_replicate_None)
qed

text \<open>
  C8 as stated fails for a \<^verbatim>\<open>packages\<close> array that holds a string which is not JSON text:
  \<^verbatim>\<open>json_extract\<close> raises \<^verbatim>\<open>malformed JSON\<close> and with it all three operations.
\<close>

theorem malformed_packages_counterexample:
  "get_top_dependencies text_corpus 10 = Inl MalformedJSON \<and>
   get_dependency_stats text_corpus = Inl MalformedJSON \<and>
   get_dependencies_by_repo text_corpus ''acme/widgets'' = Inl MalformedJSON"
  by code_simp

text \<open>
  C8, amended. A stored document that gives no package row (see \<open>without_packages\<close>: the
  path is missing, or what stands there holds neither a string nor an object with an
  identity) counts for nothing in the results: \<^verbatim>\<open>get_top_dependencies\<close> and the two
  counts of \<^verbatim>\<open>get_dependency_stats\<close> are what they are on the store without such
  documents, raising only if another document makes them raise;
  \<^verbatim>\<open>get_dependencies_by_repo\<close> for a repository holding such a document returns the
  empty list; and on a store of such documents only, the statistics are zero and the top
  list is empty.
\<close>

theorem documents_without_packages:
  "get_top_dependencies db n = get_top_dependencies (drop_without_packages db) n \<and>
   get_dependency_stats db =
     map_sum id (\<lambda>s. s\<lparr>sbom_count := get_sbom_count db\<rparr>)
       (get_dependency_stats (drop_without_packages db)) \<and>
   (list_all (\<lambda>r. source_repo r = repo \<longrightarrow> without_packages (json_content r)) (sbom db) \<longrightarrow>
      get_dependencies_by_repo db repo = Inr []) \<and>
   (list_all (\<lambda>r. without_packages (json_content r)) (sbom db) \<longrightarrow>
      get_dependency_stats db =
        Inr \<lparr>unique_dependencies = 0, total_occurrences = 0, sbom_count = get_sbom_count db\<rparr> \<and>
      (- (2 ^ 63) \<le> n \<and> n < 2 ^ 63 \<longrightarrow> get_top_dependencies db n = Inr []))"
proof -
  have ids: "spdx_ids (sbom (drop_without_packages db)) = spdx_ids (sbom db)"
    by (simp add: drop_without_packages_def spdx_ids_drop)
  have a: "get_top_dependencies db n = get_top_dependencies (drop_without_packages db) n"
    by (simp add: get_top_dependencies_def ids)
  have b: "get_dependency_stats db =
     map_sum id (\<lambda>s. s\<lparr>sbom_count := get_sbom_count db\<rparr>)
       (get_dependency_stats (drop_without_packages db))"
    by (simp add: get_dependency_stats_def ids split: sum.splits)
  have c: "list_all (\<lambda>r. source_repo r = repo \<longrightarrow> without_packages (json_content r)) (sbom db) \<longrightarrow>
      get_dependencies_by_repo db repo = Inr []"
    using by_repo_without_packages by blast
  have d: "list_all (\<lambda>r. without_packages (json_content r)) (sbom db) \<longrightarrow>
      get_dependency_stats db =
        Inr \<lparr>unique_dependencies = 0, total_occurrences = 0, sbom_count = get_sbom_count db\<rparr> \<and>
      (- (2 ^ 63) \<le> n \<and> n < 2 ^ 63 \<longrightarrow> get_top_dependencies db n = Inr [])"
  proof
    assume all: "list_all (\<lambda>r. without_packages (json_content r)) (sbom db)"
    then have "filter (\<lambda>r. \<not> without_packages (json_content r)) (sbom db) = []"
      by (simp add: list_all_iff filter_empty_conv)
    then have "spdx_ids (sbom db) = Inr []"
      using spdx_ids_drop [of "sbom db"] by (simp add: spdx_ids_def)
    then show "get_dependency_stats db =
        Inr \<lparr>unique_dependencies = 0, total_occurrences = 0, sbom_count = get_sbom_count db\<rparr> \<and>
      (- (2 ^ 63) \<le> n \<and> n < 2 ^ 63 \<longrightarrow> get_top_dependencies db n = Inr [])"
      by (simp add: get_dependency_stats_def get_top_dependencies_def)
  qed
  from a b c d show ?thesis by blast
qed

theorem documents_without_packages_witness:
  "without_packages (JObj [(''sbom'', JObj [])]) \<and>
   get_dependencies_by_repo corpus ''acme/empty'' = Inr [] \<and>
   get_dependency_stats corpus =
     Inr \<lparr>unique_dependencies = 4, total_occurrences = 7, sbom_count = 3\<rparr> \<and>
   get_dependency_stats (drop_without_packages corpus) =
     Inr \<lparr>unique_dependencies = 4, total_occurrences = 7, sbom_count = 2\<rparr>"
proof -
  have a: "without_packages (JObj [(''sbom'', JObj [])])"
    by code_simp
  have b: "get_dependency_stats (drop_without_packages corpus) =
     Inr \<lparr>unique_dependencies = 4, total_occurrences = 7, sbom_count = 2\<rparr>"
    by code_simp
  have c: "list_all (\<lambda>r. source_repo r = ''acme/empty'' \<longrightarrow> without_packages (json_content r)) (sbom corpus)"
    by code_simp
  have d: "get_sbom_count corpus = 3"
    by code_simp
  from documents_without_packages [of corpus 10 "''acme/empty''"] a b c d show ?thesis
    by simp
qed

end
